theory Spec2Isabelle
  imports Main
begin

section \<open>JavaScript strings and numbers\<close>

text \<open>
  A JavaScript string is modelled as a \<^typ>\<open>string\<close>: a list of characters with code
  points below 256. \<open>\d\<close> of a JavaScript pattern (no unicode flag) is the ten ASCII
  digits; the white space that \<open>String.prototype.trim\<close> removes is, below code point 256,
  TAB, LF, VT, FF, CR, SPACE and NBSP.
\<close>

definition digit_chars :: string where
  "digit_chars = ''0123456789''"

definition is_digit :: "char \<Rightarrow> bool" where
  "is_digit c = (c \<in> set digit_chars)"

definition white_space :: string where
  "white_space = [CHR 0x09, CHR 0x0A, CHR 0x0B, CHR 0x0C, CHR 0x0D, CHR 0x20, CHR 0xA0]"

definition is_white_space :: "char \<Rightarrow> bool" where
  "is_white_space c = (c \<in> set white_space)"

definition js_trim :: "string \<Rightarrow> string" where
  "js_trim s = rev (dropWhile is_white_space (rev (dropWhile is_white_space s)))"

definition js_includes :: "string \<Rightarrow> char \<Rightarrow> bool" where
  "js_includes s c = (c \<in> set s)"

text \<open>\<open>xs.join(sep)\<close> of an array of strings.\<close>

fun js_join :: "string \<Rightarrow> string list \<Rightarrow> string" where
  "js_join sep [] = []"
| "js_join sep [x] = x"
| "js_join sep (x # y # ys) = x @ sep @ js_join sep (y # ys)"

text \<open>
  The decimal digits of a natural number, most significant first, and
  \<open>Number.prototype.toString\<close> on an integer. A pull-request number is a JavaScript
  number holding an integer; it is modelled as an \<^typ>\<open>int\<close>. (JavaScript prints an
  integer of magnitude below \<open>10^21\<close> in plain decimal.)
\<close>

fun digits_of :: "nat \<Rightarrow> string" where
  "digits_of n =
     (if n < 10 then [digit_chars ! n] else digits_of (n div 10) @ [digit_chars ! (n mod 10)])"

declare digits_of.simps [simp del]

definition Number_toString :: "int \<Rightarrow> string" where
  "Number_toString i = (if i < 0 then CHR ''-'' # digits_of (nat (- i)) else digits_of (nat i))"

text \<open>The unary \<open>+\<close> of JavaScript on a string of decimal digits.\<close>

definition digit_value :: "char \<Rightarrow> nat" where
  "digit_value c = of_char c - 48"

definition number_of_digits :: "string \<Rightarrow> nat" where
  "number_of_digits s = foldl (\<lambda>n c. 10 * n + digit_value c) 0 s"

text \<open>
  \<open>a < b\<close> on two JavaScript strings: the comparison of their code units, left to right,
  a proper prefix being smaller.
\<close>

fun js_string_less :: "string \<Rightarrow> string \<Rightarrow> bool" where
  "js_string_less [] [] = False"
| "js_string_less [] (y # ys) = True"
| "js_string_less (x # xs) [] = False"
| "js_string_less (x # xs) (y # ys) =
     (if (of_char x :: nat) < of_char y then True
      else if (of_char y :: nat) < of_char x then False
      else js_string_less xs ys)"

section \<open>The pattern of the version check\<close>

text \<open>
  \<open>stdout.match(/\d+\.\d+(\.\d+)?/)\<close>: the leftmost match of the pattern, and
  \<open>match[0]\<close>, the matched text. At a given start the pattern has one way to match:
  both \<open>\d+\<close> are greedy and take every digit there is (a shorter run would be followed
  by a digit, not by the dot), and the optional group is taken when a dot and at least
  one digit follow.
\<close>

definition match_here :: "string \<Rightarrow> string option" where
  "match_here s =
     (let a = takeWhile is_digit s; r = dropWhile is_digit s in
      if a = [] then None
      else case r of
        [] \<Rightarrow> None
      | d # r1 \<Rightarrow>
          if d \<noteq> CHR ''.'' then None
          else
            let b = takeWhile is_digit r1; r2 = dropWhile is_digit r1 in
            if b = [] then None
            else case r2 of
              [] \<Rightarrow> Some (a @ ''.'' @ b)
            | e # r3 \<Rightarrow>
                let c = takeWhile is_digit r3 in
                if e = CHR ''.'' \<and> c \<noteq> [] then Some (a @ ''.'' @ b @ ''.'' @ c)
                else Some (a @ ''.'' @ b))"

fun regex_match :: "string \<Rightarrow> string option" where
  "regex_match [] = None"
| "regex_match (c # cs) =
     (case match_here (c # cs) of Some m \<Rightarrow> Some m | None \<Rightarrow> regex_match cs)"

section \<open>The semver package\<close>

text \<open>
  The wrapper imports \<open>semver.valid\<close> and the class \<open>SemVer\<close> from the npm package
  semver. They are modelled here from the package's own source (\<open>classes/semver.js\<close>,
  \<open>functions/valid.js\<close>, \<open>internal/re.js\<close>, version 7), in strict mode, which is the
  default, and on a string made of digits and dots: that is every string the pattern above
  can hand over. On such a string the package's full pattern
  \<open>^v?(N)\.(N)\.(N)(-prerelease)?(+build)?$\<close>, with \<open>N = 0|[1-9]\d*\<close>, asks for
  exactly three dot-separated numeric identifiers; the constructor also refuses a string
  longer than 256 characters and a component above \<open>Number.MAX_SAFE_INTEGER\<close>, and
  \<open>format\<close> sets \<open>version\<close> to the three numbers joined by dots.
  (Strings with other characters, which the package may accept, are outside this model.)
\<close>

definition MAX_LENGTH :: nat where
  "MAX_LENGTH = 256"

definition MAX_SAFE_INTEGER :: nat where
  "MAX_SAFE_INTEGER = 9007199254740991"

definition numeric_identifier :: "string \<Rightarrow> bool" where
  "numeric_identifier s =
     (s = ''0'' \<or> (s \<noteq> [] \<and> hd s \<noteq> CHR ''0'' \<and> list_all is_digit s))"

fun split_dot :: "string \<Rightarrow> string list" where
  "split_dot [] = [[]]"
| "split_dot (c # cs) =
     (if c = CHR ''.'' then [] # split_dot cs
      else case split_dot cs of
        [] \<Rightarrow> [[c]]
      | p # ps \<Rightarrow> (c # p) # ps)"

record SemVer =
  raw :: string
  major :: nat
  minor :: nat
  patch :: nat
  version :: string

definition SemVer_format :: "nat \<Rightarrow> nat \<Rightarrow> nat \<Rightarrow> string" where
  "SemVer_format a b c = digits_of a @ ''.'' @ digits_of b @ ''.'' @ digits_of c"

definition SemVer_new :: "string \<Rightarrow> SemVer option" where
  "SemVer_new v =
     (if MAX_LENGTH < length v then None
      else case split_dot v of
        [a, b, c] \<Rightarrow>
          if numeric_identifier a \<and> numeric_identifier b \<and> numeric_identifier c then
            let ma = number_of_digits a; mi = number_of_digits b; pa = number_of_digits c in
            if MAX_SAFE_INTEGER < ma \<or> MAX_SAFE_INTEGER < mi \<or> MAX_SAFE_INTEGER < pa then None
            else Some \<lparr>raw = v, major = ma, minor = mi, patch = pa,
                       version = SemVer_format ma mi pa\<rparr>
          else None
      | _ \<Rightarrow> None)"

definition semver_valid :: "string \<Rightarrow> string option" where
  "semver_valid v = map_option version (SemVer_new v)"

definition SemVer_toString :: "SemVer \<Rightarrow> string" where
  "SemVer_toString v = version v"

text \<open>
  \<open>a < b\<close> on two \<open>SemVer\<close> objects. The class defines \<open>toString\<close> and no
  \<open>valueOf\<close>, so JavaScript converts both objects to their \<open>version\<close> strings and
  compares the strings.
\<close>

definition SemVer_js_less :: "SemVer \<Rightarrow> SemVer \<Rightarrow> bool" where
  "SemVer_js_less a b = js_string_less (SemVer_toString a) (SemVer_toString b)"

text \<open>\<open>export const MinimumAutoVersion = new SemVer('9.25.0')\<close>\<close>

definition MinimumAutoVersion :: SemVer where
  "MinimumAutoVersion =
     \<lparr>raw = ''9.25.0'', major = 9, minor = 25, patch = 0, version = ''9.25.0''\<rparr>"


section \<open>Errors, the host and the subprocess\<close>

text \<open>
  The failures of the wrapper, as values:
  \<^item> \<open>ExecutableNotFound\<close>: \<open>Unable to locate executable file for either npx or auto\<close>;
  \<^item> \<open>VersionUnparseable\<close>: \<open>Unable to determine the auto version\<close>;
  \<^item> \<open>VersionTooOld required command actual\<close>:
    \<open>Minimum required auto version is <required>. Your auto ('<command>') is <actual>\<close>;
  \<^item> \<open>SubprocessFailure code\<close>: the rejection of \<open>exec.exec\<close> on a non-zero exit code
    that is not ignored;
  \<^item> \<open>InvalidVersion\<close>: the \<open>TypeError\<close> of \<open>new SemVer\<close>.
\<close>

datatype auto_error =
    ExecutableNotFound
  | VersionUnparseable
  | VersionTooOld string string string
  | SubprocessFailure int
  | InvalidVersion

text \<open>What \<open>exec.exec\<close> is called with: the command line, the arguments and the options.\<close>

record exec_call =
  commandLine :: string
  execArgs :: "string list"
  env :: "string \<rightharpoonup> string"
  ignoreReturnCode :: bool

text \<open>What the subprocess does: the chunks it writes to its standard output, and its exit code.\<close>

record proc_result =
  chunks :: "string list"
  code :: int

text \<open>
  The host: \<open>io.which\<close> (the path of a tool, if it is installed), \<open>process.env\<close>, and
  the behaviour of a subprocess started with a given call.
\<close>

record host =
  which :: "string \<Rightarrow> string option"
  process_env :: "string \<rightharpoonup> string"
  run_process :: "exec_call \<Rightarrow> proc_result"

record AutoOutput =
  stdout :: string
  exitCode :: int

record AutoCommandManager =
  autoEnv :: "string \<rightharpoonup> string"
  autoCommand :: string
  globalArgs :: "string list"

definition new_AutoCommandManager :: AutoCommandManager where
  "new_AutoCommandManager = \<lparr>autoEnv = Map.empty, autoCommand = [], globalArgs = []\<rparr>"

text \<open>
  \<open>exec.exec(commandLine, args, options)\<close> of @actions/exec: it runs the subprocess,
  hands every chunk of standard output to the listener, and resolves to the exit code;
  it rejects when the exit code is not zero and \<open>ignoreReturnCode\<close> is off.
\<close>

definition exec_exec :: "host \<Rightarrow> exec_call \<Rightarrow> auto_error + proc_result" where
  "exec_exec h c =
     (let r = run_process h c in
      if code r \<noteq> 0 \<and> \<not> ignoreReturnCode c then Inl (SubprocessFailure (code r))
      else Inr r)"

text \<open>
  \<open>execAuto(args, allowAllExitCodes = false)\<close>. \<open>execAuto_call\<close> is the call it makes
  (the environment is \<open>process.env\<close> overlaid by \<open>autoEnv\<close>, the arguments are
  \<open>[...this.globalArgs, ...args]\<close>); \<open>execAuto\<close> is what its promise settles to.
\<close>

definition execAuto_call :: "host \<Rightarrow> AutoCommandManager \<Rightarrow> string list \<Rightarrow> bool \<Rightarrow> exec_call" where
  "execAuto_call h this args allowAllExitCodes =
     \<lparr>commandLine = [CHR 0x22] @ autoCommand this @ [CHR 0x22],
      execArgs = globalArgs this @ args,
      env = process_env h ++ autoEnv this,
      ignoreReturnCode = allowAllExitCodes\<rparr>"

definition execAuto :: "host \<Rightarrow> AutoCommandManager \<Rightarrow> string list \<Rightarrow> bool \<Rightarrow> auto_error + AutoOutput" where
  "execAuto h this args allowAllExitCodes =
     (case exec_exec h (execAuto_call h this args allowAllExitCodes) of
        Inl e \<Rightarrow> Inl e
      | Inr r \<Rightarrow> Inr \<lparr>stdout = concat (chunks r), exitCode = code r\<rparr>)"

section \<open>Initialization\<close>

text \<open>Lines 412 to 423: the global arguments, pushed in this order.\<close>

definition push :: "string list \<Rightarrow> string list \<Rightarrow> string list" where
  "push args items = args @ items"

definition pushGlobalArgs ::
  "AutoCommandManager \<Rightarrow> string \<Rightarrow> string \<Rightarrow> string \<Rightarrow> string list \<Rightarrow> AutoCommandManager" where
  "pushGlobalArgs this repo owner githubApi plugins =
     (let this = (if repo \<noteq> [] then this\<lparr>globalArgs := push (globalArgs this) [''--repo'', repo]\<rparr>
                  else this);
          this = (if owner \<noteq> [] then this\<lparr>globalArgs := push (globalArgs this) [''--owner'', owner]\<rparr>
                  else this);
          this = (if githubApi \<noteq> []
                  then this\<lparr>globalArgs := push (globalArgs this) [''--githubApi'', githubApi]\<rparr>
                  else this);
          this = (if 0 < length plugins
                  then this\<lparr>globalArgs :=
                         push (globalArgs this) [''--plugins'', ''['' @ js_join '' '' plugins @ '']'']\<rparr>
                  else this)
      in this)"

text \<open>Lines 424 to 435: \<open>npx auto\<close> first, then \<open>auto\<close>.\<close>

definition locateAuto :: "host \<Rightarrow> auto_error + string" where
  "locateAuto h =
     (case which h ''npx'' of
        Some p \<Rightarrow> Inr (p @ '' auto'')
      | None \<Rightarrow>
         (case which h ''auto'' of
            Some p \<Rightarrow> Inr p
          | None \<Rightarrow> Inl ExecutableNotFound))"

text \<open>Lines 439 to 452: the check of the output of \<open>--version\<close>.\<close>

definition checkAutoVersion :: "string \<Rightarrow> string \<Rightarrow> auto_error + unit" where
  "checkAutoVersion command output =
     (let stdout = js_trim output in
      if \<not> js_includes stdout (CHR 0x0A) then
        (case regex_match stdout of
           None \<Rightarrow> Inl VersionUnparseable
         | Some m \<Rightarrow>
            (case semver_valid m of
               None \<Rightarrow> Inl VersionUnparseable
             | Some _ \<Rightarrow>
                (case SemVer_new m of
                   None \<Rightarrow> Inl InvalidVersion
                 | Some autoVersion \<Rightarrow>
                     if SemVer_js_less autoVersion MinimumAutoVersion
                     then Inl (VersionTooOld (SemVer_toString MinimumAutoVersion) command
                                 (SemVer_toString autoVersion))
                     else Inr ())))
      else Inr ())"

definition initializeCommandManager ::
  "host \<Rightarrow> AutoCommandManager \<Rightarrow> string \<Rightarrow> string \<Rightarrow> string \<Rightarrow> string list
     \<Rightarrow> auto_error + AutoCommandManager" where
  "initializeCommandManager h this repo owner githubApi plugins =
     (let this = pushGlobalArgs this repo owner githubApi plugins in
      case locateAuto h of
        Inl e \<Rightarrow> Inl e
      | Inr command \<Rightarrow>
          let this = this\<lparr>autoCommand := command\<rparr> in
          (case execAuto h this [''--version''] False of
             Inl e \<Rightarrow> Inl e
           | Inr autoOutput \<Rightarrow>
              (case checkAutoVersion (autoCommand this) (stdout autoOutput) of
                 Inl e \<Rightarrow> Inl e
               | Inr _ \<Rightarrow> Inr this)))"

definition createCommandManager ::
  "host \<Rightarrow> string \<Rightarrow> string \<Rightarrow> string \<Rightarrow> string list \<Rightarrow> auto_error + AutoCommandManager" where
  "createCommandManager h repo owner githubApi plugins =
     initializeCommandManager h new_AutoCommandManager repo owner githubApi plugins"


section \<open>The operations\<close>

text \<open>The enumerations \<open>AutoCommand\<close> (the subcommand tokens) and \<open>PrState\<close>.\<close>

definition AutoCommand_info :: string where "AutoCommand_info = ''info''"
definition AutoCommand_changelog :: string where "AutoCommand_changelog = ''changelog''"
definition AutoCommand_release :: string where "AutoCommand_release = ''release''"
definition AutoCommand_shipit :: string where "AutoCommand_shipit = ''shipit''"
definition AutoCommand_latest :: string where "AutoCommand_latest = ''latest''"
definition AutoCommand_next :: string where "AutoCommand_next = ''next''"
definition AutoCommand_canary :: string where "AutoCommand_canary = ''canary''"
definition AutoCommand_label :: string where "AutoCommand_label = ''label''"
definition AutoCommand_prStatus :: string where "AutoCommand_prStatus = ''pr-status''"
definition AutoCommand_prCheck :: string where "AutoCommand_prCheck = ''pr-check''"
definition AutoCommand_prBody :: string where "AutoCommand_prBody = ''pr-body''"
definition AutoCommand_comment :: string where "AutoCommand_comment = ''comment''"

datatype PrState = pending | success | error | failure

fun PrState_value :: "PrState \<Rightarrow> string" where
  "PrState_value pending = ''pending''"
| "PrState_value success = ''success''"
| "PrState_value error = ''error''"
| "PrState_value failure = ''failure''"

text \<open>
  What a call of an operation leaves behind: the call of \<open>exec.exec\<close> it made; the
  promise of \<open>execAuto\<close> when the operation did not await it (nobody reads what it
  settles to); and what the operation's own promise settles to, which is all that its
  caller sees.
\<close>

record 'a outcome =
  invoked :: exec_call
  floating :: "(auto_error + AutoOutput) option"
  settled :: "auto_error + 'a"

text \<open>
  \<open>const output = await this.execAuto(args)\<close> followed by the operation's return
  (\<open>k output\<close>), and the bare statement \<open>this.execAuto(args)\<close> at the end of an async
  method.
\<close>

definition await_execAuto ::
  "host \<Rightarrow> AutoCommandManager \<Rightarrow> string list \<Rightarrow> (AutoOutput \<Rightarrow> 'a) \<Rightarrow> 'a outcome" where
  "await_execAuto h this args k =
     \<lparr>invoked = execAuto_call h this args False,
      floating = None,
      settled = (case execAuto h this args False of Inl e \<Rightarrow> Inl e | Inr output \<Rightarrow> Inr (k output))\<rparr>"

definition detached_execAuto ::
  "host \<Rightarrow> AutoCommandManager \<Rightarrow> string list \<Rightarrow> unit outcome" where
  "detached_execAuto h this args =
     \<lparr>invoked = execAuto_call h this args False,
      floating = Some (execAuto h this args False),
      settled = Inr ()\<rparr>"

subsection \<open>The shared flag sets\<close>

definition commonChangelogReleaseArgs ::
  "string list \<Rightarrow> bool \<Rightarrow> bool \<Rightarrow> string \<Rightarrow> string \<Rightarrow> string \<Rightarrow> string list" where
  "commonChangelogReleaseArgs args dryRun noVersionPrefix name email from =
     (let args = (if dryRun then push args [''--dry-run''] else args);
          args = (if noVersionPrefix then push args [''--no-version-prefix''] else args);
          args = (if name \<noteq> [] then push args [''--name'', name] else args);
          args = (if email \<noteq> [] then push args [''--email'', email] else args);
          args = (if from \<noteq> [] then push args [''--from'', from] else args)
      in args)"

definition commonPrArgs :: "string list \<Rightarrow> bool \<Rightarrow> int \<Rightarrow> string \<Rightarrow> string list" where
  "commonPrArgs args dryRun pr context =
     (let args = (if dryRun then push args [''--dry-run''] else args);
          args = (if 0 < pr then push args [''--pr'', Number_toString pr] else args);
          args = (if context \<noteq> [] then push args [''--context'', context] else args)
      in args)"

subsection \<open>The argument list each operation builds\<close>

definition info_args :: "bool \<Rightarrow> string list" where
  "info_args listPlugins =
     (let args = [AutoCommand_info];
          args = (if listPlugins then push args [''--list-plugins''] else args)
      in args)"

definition version_args :: "bool \<Rightarrow> string \<Rightarrow> string list" where
  "version_args onlyPublishWithReleaseVersion from =
     (let args = [''version''];
          args = (if onlyPublishWithReleaseVersion
                  then push args [''--only-publish-with-release-label''] else args);
          args = (if from \<noteq> [] then push args [''--from'', from] else args)
      in args)"

definition changelog_args ::
  "bool \<Rightarrow> bool \<Rightarrow> string \<Rightarrow> string \<Rightarrow> string \<Rightarrow> string \<Rightarrow> string \<Rightarrow> string \<Rightarrow> string
     \<Rightarrow> string list" where
  "changelog_args dryRun noVersionPrefix name email from to title message baseBranch =
     (let args = [AutoCommand_changelog];
          args = commonChangelogReleaseArgs args dryRun noVersionPrefix name email from;
          args = (if to \<noteq> [] then push args [''--to'', to] else args);
          args = (if title \<noteq> [] then push args [''--title'', title] else args);
          args = (if message \<noteq> [] then push args [''--message'', message] else args);
          args = (if baseBranch \<noteq> [] then push args [''--base-branch'', baseBranch] else args)
      in args)"

definition release_args ::
  "bool \<Rightarrow> bool \<Rightarrow> string \<Rightarrow> string \<Rightarrow> string \<Rightarrow> string \<Rightarrow> string \<Rightarrow> bool \<Rightarrow> string list" where
  "release_args dryRun noVersionPrefix name email from useVersion baseBranch preRelease =
     (let args = [AutoCommand_release];
          args = commonChangelogReleaseArgs args dryRun noVersionPrefix name email from;
          args = (if useVersion \<noteq> [] then push args [''--use-version'', useVersion] else args);
          args = (if baseBranch \<noteq> [] then push args [''--base-branch'', baseBranch] else args);
          args = (if preRelease then push args [''--pre-release''] else args)
      in args)"

definition shipit_args :: "bool \<Rightarrow> string \<Rightarrow> bool \<Rightarrow> string list" where
  "shipit_args dryRun baseBranch onlyGraduateWithReleaseLabel =
     (let args = [AutoCommand_shipit];
          args = (if dryRun then push args [''--dry-run''] else args);
          args = (if baseBranch \<noteq> [] then push args [''--base-branch'', baseBranch] else args);
          args = (if onlyGraduateWithReleaseLabel
                  then push args [''--only-graduate-with-release-label''] else args)
      in args)"

definition next_args :: "bool \<Rightarrow> string \<Rightarrow> string list" where
  "next_args dryRun message =
     (let args = [AutoCommand_next];
          args = (if dryRun then push args [''--dry-run''] else args);
          args = (if message \<noteq> [] then push args [''--message'', message] else args)
      in args)"

definition canary_args :: "bool \<Rightarrow> int \<Rightarrow> string \<Rightarrow> string \<Rightarrow> bool \<Rightarrow> string list" where
  "canary_args dryRun pr build message force =
     (let args = [AutoCommand_canary];
          args = (if dryRun then push args [''--dry-run''] else args);
          args = (if 0 < pr then push args [''--pr'', Number_toString pr] else args);
          args = (if build \<noteq> [] then push args [''--build'', build] else args);
          args = (if message \<noteq> [] then push args [''--message'', message] else args);
          args = (if force then push args [''--force''] else args)
      in args)"

definition label_args :: "int \<Rightarrow> string list" where
  "label_args pr =
     (let args = [AutoCommand_label];
          args = (if 0 < pr then push args [''--pr'', Number_toString pr] else args)
      in args)"

definition latest_args :: "bool \<Rightarrow> string \<Rightarrow> string list" where
  "latest_args dryRun baseBranch =
     (let args = [AutoCommand_latest];
          args = (if dryRun then push args [''--dry-run''] else args);
          args = (if baseBranch \<noteq> [] then push args [''--base-branch'', baseBranch] else args)
      in args)"

definition prStatus_args ::
  "bool \<Rightarrow> int \<Rightarrow> string \<Rightarrow> string \<Rightarrow> string \<Rightarrow> PrState \<Rightarrow> string \<Rightarrow> string list" where
  "prStatus_args dryRun pr context url sha state description =
     (let args = [AutoCommand_prStatus];
          args = commonPrArgs args dryRun pr context;
          args = (if url \<noteq> [] then push args [''--url'', url] else args);
          args = (if sha \<noteq> [] then push args [''--sha'', sha] else args);
          args = (if PrState_value state \<noteq> [] then push args [''--state'', PrState_value state]
                  else args);
          args = (if description \<noteq> [] then push args [''--description'', description] else args)
      in args)"

definition prCheck_args :: "bool \<Rightarrow> int \<Rightarrow> string \<Rightarrow> string \<Rightarrow> string list" where
  "prCheck_args dryRun pr context url =
     (let args = [AutoCommand_prCheck];
          args = commonPrArgs args dryRun pr context;
          args = (if url \<noteq> [] then push args [''--url'', url] else args)
      in args)"

definition prBody_args :: "bool \<Rightarrow> int \<Rightarrow> string \<Rightarrow> string \<Rightarrow> string list" where
  "prBody_args dryRun pr context message =
     (let args = [AutoCommand_prBody];
          args = commonPrArgs args dryRun pr context;
          args = (if message \<noteq> [] then push args [''--message'', message] else args)
      in args)"

definition comment_args :: "bool \<Rightarrow> int \<Rightarrow> string \<Rightarrow> string \<Rightarrow> bool \<Rightarrow> bool \<Rightarrow> string list" where
  "comment_args dryRun pr context message edit del =
     (let args = [AutoCommand_comment];
          args = commonPrArgs args dryRun pr context;
          args = (if message \<noteq> [] then push args [''--message'', message] else args);
          args = (if edit then push args [''--edit''] else args);
          args = (if del then push args [''--delete''] else args)
      in args)"

subsection \<open>The operations of \<open>IAutoCommandManager\<close>\<close>

definition info :: "host \<Rightarrow> AutoCommandManager \<Rightarrow> bool \<Rightarrow> string outcome" where
  "info h this listPlugins = await_execAuto h this (info_args listPlugins) stdout"

definition version_op :: "host \<Rightarrow> AutoCommandManager \<Rightarrow> bool \<Rightarrow> string \<Rightarrow> string outcome" where
  "version_op h this onlyPublishWithReleaseVersion from =
     await_execAuto h this (version_args onlyPublishWithReleaseVersion from) stdout"

definition changelog ::
  "host \<Rightarrow> AutoCommandManager \<Rightarrow> bool \<Rightarrow> bool \<Rightarrow> string \<Rightarrow> string \<Rightarrow> string \<Rightarrow> string \<Rightarrow> string
     \<Rightarrow> string \<Rightarrow> string \<Rightarrow> unit outcome" where
  "changelog h this dryRun noVersionPrefix name email from to title message baseBranch =
     await_execAuto h this
       (changelog_args dryRun noVersionPrefix name email from to title message baseBranch)
       (\<lambda>_. ())"

definition release ::
  "host \<Rightarrow> AutoCommandManager \<Rightarrow> bool \<Rightarrow> bool \<Rightarrow> string \<Rightarrow> string \<Rightarrow> string \<Rightarrow> string \<Rightarrow> string
     \<Rightarrow> bool \<Rightarrow> unit outcome" where
  "release h this dryRun noVersionPrefix name email from useVersion baseBranch preRelease =
     await_execAuto h this
       (release_args dryRun noVersionPrefix name email from useVersion baseBranch preRelease)
       (\<lambda>_. ())"

definition shipit :: "host \<Rightarrow> AutoCommandManager \<Rightarrow> bool \<Rightarrow> string \<Rightarrow> bool \<Rightarrow> unit outcome" where
  "shipit h this dryRun baseBranch onlyGraduateWithReleaseLabel =
     await_execAuto h this (shipit_args dryRun baseBranch onlyGraduateWithReleaseLabel) (\<lambda>_. ())"

definition next_op :: "host \<Rightarrow> AutoCommandManager \<Rightarrow> bool \<Rightarrow> string \<Rightarrow> unit outcome" where
  "next_op h this dryRun message = await_execAuto h this (next_args dryRun message) (\<lambda>_. ())"

definition canary ::
  "host \<Rightarrow> AutoCommandManager \<Rightarrow> bool \<Rightarrow> int \<Rightarrow> string \<Rightarrow> string \<Rightarrow> bool \<Rightarrow> unit outcome" where
  "canary h this dryRun pr build message force =
     await_execAuto h this (canary_args dryRun pr build message force) (\<lambda>_. ())"

definition label :: "host \<Rightarrow> AutoCommandManager \<Rightarrow> int \<Rightarrow> string outcome" where
  "label h this pr = await_execAuto h this (label_args pr) stdout"

definition latest :: "host \<Rightarrow> AutoCommandManager \<Rightarrow> bool \<Rightarrow> string \<Rightarrow> unit outcome" where
  "latest h this dryRun baseBranch =
     await_execAuto h this (latest_args dryRun baseBranch) (\<lambda>_. ())"

definition prStatus ::
  "host \<Rightarrow> AutoCommandManager \<Rightarrow> bool \<Rightarrow> int \<Rightarrow> string \<Rightarrow> string \<Rightarrow> string \<Rightarrow> PrState \<Rightarrow> string
     \<Rightarrow> unit outcome" where
  "prStatus h this dryRun pr context url sha state description =
     detached_execAuto h this (prStatus_args dryRun pr context url sha state description)"

definition prCheck ::
  "host \<Rightarrow> AutoCommandManager \<Rightarrow> bool \<Rightarrow> int \<Rightarrow> string \<Rightarrow> string \<Rightarrow> string outcome" where
  "prCheck h this dryRun pr context url =
     await_execAuto h this (prCheck_args dryRun pr context url) stdout"

definition prBody ::
  "host \<Rightarrow> AutoCommandManager \<Rightarrow> bool \<Rightarrow> int \<Rightarrow> string \<Rightarrow> string \<Rightarrow> unit outcome" where
  "prBody h this dryRun pr context message =
     detached_execAuto h this (prBody_args dryRun pr context message)"

definition comment ::
  "host \<Rightarrow> AutoCommandManager \<Rightarrow> bool \<Rightarrow> int \<Rightarrow> string \<Rightarrow> string \<Rightarrow> bool \<Rightarrow> bool \<Rightarrow> unit outcome" where
  "comment h this dryRun pr context message edit del =
     detached_execAuto h this (comment_args dryRun pr context message edit del)"


subsection \<open>A call of any operation\<close>

text \<open>
  One constructor for each method of \<open>IAutoCommandManager\<close>, with the method's
  parameters; \<open>perform\<close> calls the method. A method of type \<open>Promise<string>\<close> replies
  with a text, one of type \<open>Promise<void>\<close> with nothing.
\<close>

datatype request =
    Call_info bool
  | Call_version bool string
  | Call_changelog bool bool string string string string string string string
  | Call_release bool bool string string string string string bool
  | Call_shipit bool string bool
  | Call_latest bool string
  | Call_next bool string
  | Call_canary bool int string string bool
  | Call_label int
  | Call_prStatus bool int string string string PrState string
  | Call_prCheck bool int string string
  | Call_prBody bool int string string
  | Call_comment bool int string string bool bool

datatype reply = Text string | Void

definition replying :: "('a \<Rightarrow> reply) \<Rightarrow> 'a outcome \<Rightarrow> reply outcome" where
  "replying f out =
     \<lparr>invoked = invoked out,
      floating = floating out,
      settled = (case settled out of Inl e \<Rightarrow> Inl e | Inr v \<Rightarrow> Inr (f v))\<rparr>"

fun command_args :: "request \<Rightarrow> string list" where
  "command_args (Call_info listPlugins) = info_args listPlugins"
| "command_args (Call_version onlyPublishWithReleaseVersion from) =
     version_args onlyPublishWithReleaseVersion from"
| "command_args (Call_changelog dryRun noVersionPrefix name email from to title message baseBranch) =
     changelog_args dryRun noVersionPrefix name email from to title message baseBranch"
| "command_args (Call_release dryRun noVersionPrefix name email from useVersion baseBranch preRelease) =
     release_args dryRun noVersionPrefix name email from useVersion baseBranch preRelease"
| "command_args (Call_shipit dryRun baseBranch onlyGraduateWithReleaseLabel) =
     shipit_args dryRun baseBranch onlyGraduateWithReleaseLabel"
| "command_args (Call_latest dryRun baseBranch) = latest_args dryRun baseBranch"
| "command_args (Call_next dryRun message) = next_args dryRun message"
| "command_args (Call_canary dryRun pr build message force) =
     canary_args dryRun pr build message force"
| "command_args (Call_label pr) = label_args pr"
| "command_args (Call_prStatus dryRun pr context url sha state description) =
     prStatus_args dryRun pr context url sha state description"
| "command_args (Call_prCheck dryRun pr context url) = prCheck_args dryRun pr context url"
| "command_args (Call_prBody dryRun pr context message) = prBody_args dryRun pr context message"
| "command_args (Call_comment dryRun pr context message edit del) =
     comment_args dryRun pr context message edit del"

fun perform :: "host \<Rightarrow> AutoCommandManager \<Rightarrow> request \<Rightarrow> reply outcome" where
  "perform h this (Call_info listPlugins) = replying Text (info h this listPlugins)"
| "perform h this (Call_version onlyPublishWithReleaseVersion from) =
     replying Text (version_op h this onlyPublishWithReleaseVersion from)"
| "perform h this (Call_changelog dryRun noVersionPrefix name email from to title message baseBranch) =
     replying (\<lambda>_. Void)
       (changelog h this dryRun noVersionPrefix name email from to title message baseBranch)"
| "perform h this (Call_release dryRun noVersionPrefix name email from useVersion baseBranch preRelease) =
     replying (\<lambda>_. Void)
       (release h this dryRun noVersionPrefix name email from useVersion baseBranch preRelease)"
| "perform h this (Call_shipit dryRun baseBranch onlyGraduateWithReleaseLabel) =
     replying (\<lambda>_. Void) (shipit h this dryRun baseBranch onlyGraduateWithReleaseLabel)"
| "perform h this (Call_latest dryRun baseBranch) =
     replying (\<lambda>_. Void) (latest h this dryRun baseBranch)"
| "perform h this (Call_next dryRun message) = replying (\<lambda>_. Void) (next_op h this dryRun message)"
| "perform h this (Call_canary dryRun pr build message force) =
     replying (\<lambda>_. Void) (canary h this dryRun pr build message force)"
| "perform h this (Call_label pr) = replying Text (label h this pr)"
| "perform h this (Call_prStatus dryRun pr context url sha state description) =
     replying (\<lambda>_. Void) (prStatus h this dryRun pr context url sha state description)"
| "perform h this (Call_prCheck dryRun pr context url) =
     replying Text (prCheck h this dryRun pr context url)"
| "perform h this (Call_prBody dryRun pr context message) =
     replying (\<lambda>_. Void) (prBody h this dryRun pr context message)"
| "perform h this (Call_comment dryRun pr context message edit del) =
     replying (\<lambda>_. Void) (comment h this dryRun pr context message edit del)"

text \<open>
  What a method returns once \<open>execAuto\<close> has resolved to \<open>output\<close>: \<open>output.stdout\<close>
  for \<open>info\<close>, \<open>version\<close>, \<open>label\<close> and \<open>prCheck\<close>, nothing for the others.
\<close>

fun reply_of :: "request \<Rightarrow> AutoOutput \<Rightarrow> reply" where
  "reply_of (Call_info _) output = Text (stdout output)"
| "reply_of (Call_version _ _) output = Text (stdout output)"
| "reply_of (Call_label _) output = Text (stdout output)"
| "reply_of (Call_prCheck _ _ _ _) output = Text (stdout output)"
| "reply_of _ output = Void"

section \<open>What the specification says, as definitions\<close>

text \<open>
  The command descriptor of the specification: a fixed subcommand token and the
  operation's optional flags in their order, each gated by its own input. A switch is
  emitted when its boolean is true; a valued flag when its string is not empty, followed
  by the value in an element of its own; the pull-request number when it is strictly
  greater than zero, as \<open>--pr\<close> followed by its decimal digits.
\<close>

datatype flag = Switch string bool | Valued string string | PullRequest int

fun emit :: "flag \<Rightarrow> string list" where
  "emit (Switch f b) = (if b then [f] else [])"
| "emit (Valued f v) = (if v = [] then [] else [f, v])"
| "emit (PullRequest n) = (if 0 < n then [''--pr'', Number_toString n] else [])"

fun subcommand :: "request \<Rightarrow> string" where
  "subcommand (Call_info _) = ''info''"
| "subcommand (Call_version _ _) = ''version''"
| "subcommand (Call_changelog _ _ _ _ _ _ _ _ _) = ''changelog''"
| "subcommand (Call_release _ _ _ _ _ _ _ _) = ''release''"
| "subcommand (Call_shipit _ _ _) = ''shipit''"
| "subcommand (Call_latest _ _) = ''latest''"
| "subcommand (Call_next _ _) = ''next''"
| "subcommand (Call_canary _ _ _ _ _) = ''canary''"
| "subcommand (Call_label _) = ''label''"
| "subcommand (Call_prStatus _ _ _ _ _ _ _) = ''pr-status''"
| "subcommand (Call_prCheck _ _ _ _) = ''pr-check''"
| "subcommand (Call_prBody _ _ _ _) = ''pr-body''"
| "subcommand (Call_comment _ _ _ _ _ _) = ''comment''"

fun optional_flags :: "request \<Rightarrow> flag list" where
  "optional_flags (Call_info listPlugins) = [Switch ''--list-plugins'' listPlugins]"
| "optional_flags (Call_version onlyPublishWithReleaseVersion from) =
     [Switch ''--only-publish-with-release-label'' onlyPublishWithReleaseVersion,
      Valued ''--from'' from]"
| "optional_flags (Call_changelog dryRun noVersionPrefix name email from to title message baseBranch) =
     [Switch ''--dry-run'' dryRun, Switch ''--no-version-prefix'' noVersionPrefix,
      Valued ''--name'' name, Valued ''--email'' email, Valued ''--from'' from,
      Valued ''--to'' to, Valued ''--title'' title, Valued ''--message'' message,
      Valued ''--base-branch'' baseBranch]"
| "optional_flags (Call_release dryRun noVersionPrefix name email from useVersion baseBranch preRelease) =
     [Switch ''--dry-run'' dryRun, Switch ''--no-version-prefix'' noVersionPrefix,
      Valued ''--name'' name, Valued ''--email'' email, Valued ''--from'' from,
      Valued ''--use-version'' useVersion, Valued ''--base-branch'' baseBranch,
      Switch ''--pre-release'' preRelease]"
| "optional_flags (Call_shipit dryRun baseBranch onlyGraduateWithReleaseLabel) =
     [Switch ''--dry-run'' dryRun, Valued ''--base-branch'' baseBranch,
      Switch ''--only-graduate-with-release-label'' onlyGraduateWithReleaseLabel]"
| "optional_flags (Call_latest dryRun baseBranch) =
     [Switch ''--dry-run'' dryRun, Valued ''--base-branch'' baseBranch]"
| "optional_flags (Call_next dryRun message) =
     [Switch ''--dry-run'' dryRun, Valued ''--message'' message]"
| "optional_flags (Call_canary dryRun pr build message force) =
     [Switch ''--dry-run'' dryRun, PullRequest pr, Valued ''--build'' build,
      Valued ''--message'' message, Switch ''--force'' force]"
| "optional_flags (Call_label pr) = [PullRequest pr]"
| "optional_flags (Call_prStatus dryRun pr context url sha state description) =
     [Switch ''--dry-run'' dryRun, PullRequest pr, Valued ''--context'' context,
      Valued ''--url'' url, Valued ''--sha'' sha, Valued ''--state'' (PrState_value state),
      Valued ''--description'' description]"
| "optional_flags (Call_prCheck dryRun pr context url) =
     [Switch ''--dry-run'' dryRun, PullRequest pr, Valued ''--context'' context,
      Valued ''--url'' url]"
| "optional_flags (Call_prBody dryRun pr context message) =
     [Switch ''--dry-run'' dryRun, PullRequest pr, Valued ''--context'' context,
      Valued ''--message'' message]"
| "optional_flags (Call_comment dryRun pr context message edit del) =
     [Switch ''--dry-run'' dryRun, PullRequest pr, Valued ''--context'' context,
      Valued ''--message'' message, Switch ''--edit'' edit, Switch ''--delete'' del]"

definition descriptor_args :: "request \<Rightarrow> string list" where
  "descriptor_args r = subcommand r # concat (map emit (optional_flags r))"

text \<open>
  The order of semantic versioning on versions without a pre-release part (what
  \<open>semver.lt\<close> computes on them): the major numbers decide, then the minor numbers, then
  the patch numbers, each compared as a number.
\<close>

definition semver_below :: "SemVer \<Rightarrow> SemVer \<Rightarrow> bool" where
  "semver_below a b =
     (major a < major b
      \<or> (major a = major b \<and> (minor a < minor b \<or> (minor a = minor b \<and> patch a < patch b))))"

section \<open>A host to run the scenarios on\<close>

text \<open>
  A host without \<open>npx\<close>, with \<open>auto\<close> installed at \<open>/usr/bin/auto\<close>, where every
  subprocess writes the given text to its standard output in one chunk and exits with the
  given code.
\<close>

definition host_printing :: "string \<Rightarrow> int \<Rightarrow> host" where
  "host_printing text c =
     \<lparr>which = (\<lambda>tool. if tool = ''auto'' then Some ''/usr/bin/auto'' else None),
      process_env = Map.empty,
      run_process = (\<lambda>_. \<lparr>chunks = [text], code = c\<rparr>)\<rparr>"


text \<open>
  The same host, but the subprocess looks at the argument vector it receives: it exits
  with code 0 when the vector is the given one, and with code 1 otherwise.
\<close>

definition host_expecting :: "string list \<Rightarrow> host" where
  "host_expecting argv =
     \<lparr>which = (\<lambda>tool. if tool = ''auto'' then Some ''/usr/bin/auto'' else None),
      process_env = Map.empty,
      run_process = (\<lambda>c. \<lparr>chunks = [], code = (if execArgs c = argv then 0 else 1)\<rparr>)\<rparr>"

text \<open>
  The manager that a successful initialization returns: the global arguments pushed onto
  a fresh manager, and the command that was located.
\<close>

definition initialized :: "string \<Rightarrow> string \<Rightarrow> string \<Rightarrow> string list \<Rightarrow> string \<Rightarrow> AutoCommandManager" where
  "initialized repo owner githubApi plugins command =
     (pushGlobalArgs new_AutoCommandManager repo owner githubApi plugins)\<lparr>autoCommand := command\<rparr>"

text \<open>The manager created for \<open>terradatum/auto-action\<close> with two plugins.\<close>

definition manager_fixture :: AutoCommandManager where
  "manager_fixture = initialized ''auto-action'' ''terradatum'' [] [''npm'', ''released''] ''/usr/bin/auto''"

text \<open>
  The global argument list as the specification words it: the pairs \<open>--repo\<close>,
  \<open>--owner\<close>, \<open>--githubApi\<close> and \<open>--plugins\<close> in this order, a pair being left out
  when its input is empty; the plugins are joined by spaces and put in brackets.
\<close>

definition spec_globalArgs :: "string \<Rightarrow> string \<Rightarrow> string \<Rightarrow> string list \<Rightarrow> string list" where
  "spec_globalArgs repo owner githubApi plugins =
     (if repo = [] then [] else [''--repo'', repo])
     @ (if owner = [] then [] else [''--owner'', owner])
     @ (if githubApi = [] then [] else [''--githubApi'', githubApi])
     @ (if plugins = [] then [] else [''--plugins'', ''['' @ js_join '' '' plugins @ '']''])"

text \<open>\<open>followed_by a b xs\<close>: somewhere in \<open>xs\<close> the element \<open>a\<close> is immediately followed by \<open>b\<close>.\<close>

fun followed_by :: "string \<Rightarrow> string \<Rightarrow> string list \<Rightarrow> bool" where
  "followed_by a b (x # y # ys) = ((x = a \<and> y = b) \<or> followed_by a b (y # ys))"
| "followed_by a b _ = False"

section \<open>Evaluation and structure lemmas\<close>

lemma digits_of_numeral:
  "digits_of (numeral k) =
     (if (numeral k :: nat) < 10 then [digit_chars ! numeral k]
      else digits_of (numeral k div 10) @ [digit_chars ! (numeral k mod 10)])"
  by (rule digits_of.simps)

lemma digits_of_0: "digits_of 0 = ''0''"
  by (simp add: digits_of.simps [of 0] digit_chars_def)

lemma digits_of_1: "digits_of (Suc 0) = ''1''" "digits_of 1 = ''1''"
  by (simp_all add: digits_of.simps [of "Suc 0"] digits_of.simps [of 1] digit_chars_def)

lemma digits_of_not_Nil: "digits_of n \<noteq> []"
  by (subst digits_of.simps) simp

lemma Number_toString_not_Nil: "Number_toString i \<noteq> []" "[] \<noteq> Number_toString i"
  by (simp_all add: Number_toString_def digits_of_not_Nil digits_of_not_Nil [THEN not_sym])

lemma PrState_value_not_Nil: "PrState_value s \<noteq> []" "[] \<noteq> PrState_value s"
  by (cases s; simp)+

lemma push_Switch: "(if b then push args [f] else args) = args @ emit (Switch f b)"
  by (simp add: push_def)

lemma push_Valued: "(if v \<noteq> [] then push args [f, v] else args) = args @ emit (Valued f v)"
  by (simp add: push_def)

lemma push_Valued': "(if v = [] then args else push args [f, v]) = args @ emit (Valued f v)"
  by (simp add: push_def)

lemma push_PullRequest:
  "(if 0 < n then push args [''--pr'', Number_toString n] else args) = args @ emit (PullRequest n)"
  by (simp add: push_def)

lemmas push_emit = push_Switch push_Valued push_Valued' push_PullRequest

lemma commonPrArgs_emit:
  "commonPrArgs args dryRun pr context =
     args @ emit (Switch ''--dry-run'' dryRun) @ emit (PullRequest pr) @ emit (Valued ''--context'' context)"
  by (simp add: commonPrArgs_def push_emit del: emit.simps)

lemma commonChangelogReleaseArgs_emit:
  "commonChangelogReleaseArgs args dryRun noVersionPrefix name email from =
     args @ emit (Switch ''--dry-run'' dryRun) @ emit (Switch ''--no-version-prefix'' noVersionPrefix)
       @ emit (Valued ''--name'' name) @ emit (Valued ''--email'' email) @ emit (Valued ''--from'' from)"
  by (simp add: commonChangelogReleaseArgs_def push_emit del: emit.simps)

lemmas AutoCommand_defs = AutoCommand_info_def AutoCommand_changelog_def AutoCommand_release_def
  AutoCommand_shipit_def AutoCommand_latest_def AutoCommand_next_def AutoCommand_canary_def
  AutoCommand_label_def AutoCommand_prStatus_def AutoCommand_prCheck_def AutoCommand_prBody_def
  AutoCommand_comment_def

lemmas args_defs = info_args_def version_args_def changelog_args_def release_args_def
  shipit_args_def latest_args_def next_args_def canary_args_def label_args_def prStatus_args_def
  prCheck_args_def prBody_args_def comment_args_def

lemma command_args_descriptor: "command_args r = descriptor_args r"
  by (cases r)
    (simp_all add: args_defs AutoCommand_defs descriptor_args_def commonPrArgs_emit
      commonChangelogReleaseArgs_emit push_emit del: emit.simps)

lemma emit_no_empty:
  "[] \<notin> set (emit (Switch (c # cs) b))"
  "[] \<notin> set (emit (Valued (c # cs) v))"
  "[] \<notin> set (emit (PullRequest n))"
  by (simp_all add: Number_toString_not_Nil)

lemma descriptor_no_empty: "[] \<notin> set (descriptor_args r)"
  by (cases r) (simp_all add: descriptor_args_def emit_no_empty PrState_value_not_Nil del: emit.simps)

lemmas op_defs = info_def version_op_def changelog_def release_def shipit_def latest_def
  next_op_def canary_def label_def prStatus_def prCheck_def prBody_def comment_def

lemma invoked_perform: "invoked (perform h this r) = execAuto_call h this (command_args r) False"
  by (cases r) (simp_all add: op_defs replying_def await_execAuto_def detached_execAuto_def)

lemma createCommandManager_unfold:
  "createCommandManager h repo owner githubApi plugins =
     (case locateAuto h of
        Inl e \<Rightarrow> Inl e
      | Inr command \<Rightarrow>
         (case execAuto h (initialized repo owner githubApi plugins command) [''--version''] False of
            Inl e \<Rightarrow> Inl e
          | Inr autoOutput \<Rightarrow>
             (case checkAutoVersion command (stdout autoOutput) of
                Inl e \<Rightarrow> Inl e
              | Inr _ \<Rightarrow> Inr (initialized repo owner githubApi plugins command))))"
  by (simp add: createCommandManager_def initializeCommandManager_def initialized_def Let_def
      split: sum.splits)

lemma createCommandManager_checked:
  assumes "locateAuto h = Inr command"
    and "execAuto h (initialized repo owner githubApi plugins command) [''--version''] False = Inr output"
  shows "createCommandManager h repo owner githubApi plugins =
     (case checkAutoVersion command (stdout output) of
        Inl e \<Rightarrow> Inl e
      | Inr _ \<Rightarrow> Inr (initialized repo owner githubApi plugins command))"
  using assms by (simp add: createCommandManager_unfold)

lemma globalArgs_pushGlobalArgs:
  "globalArgs (pushGlobalArgs this repo owner githubApi plugins) =
     globalArgs this @ spec_globalArgs repo owner githubApi plugins"
  by (simp add: pushGlobalArgs_def spec_globalArgs_def push_def Let_def)

lemma globalArgs_initialized:
  "globalArgs (initialized repo owner githubApi plugins command) =
     spec_globalArgs repo owner githubApi plugins"
  by (simp add: initialized_def globalArgs_pushGlobalArgs new_AutoCommandManager_def)

lemma createCommandManager_Inr:
  assumes "createCommandManager h repo owner githubApi plugins = Inr m"
  shows "\<exists>command. m = initialized repo owner githubApi plugins command"
  using assms by (auto simp: createCommandManager_unfold split: sum.splits)

lemma locateAuto_host_printing: "locateAuto (host_printing t c) = Inr ''/usr/bin/auto''"
  by (simp add: locateAuto_def host_printing_def)

lemma execAuto_host_printing:
  "execAuto (host_printing t c) this args allow =
     (if c \<noteq> 0 \<and> \<not> allow then Inl (SubprocessFailure c) else Inr \<lparr>stdout = t, exitCode = c\<rparr>)"
  by (simp add: execAuto_def exec_exec_def execAuto_call_def host_printing_def Let_def)

lemmas trim_defs = js_trim_def is_white_space_def white_space_def
lemmas match_defs = match_here_def is_digit_def digit_chars_def
lemmas semver_defs = semver_valid_def SemVer_new_def numeric_identifier_def is_digit_def
  digit_chars_def MAX_LENGTH_def MAX_SAFE_INTEGER_def number_of_digits_def digit_value_def
  SemVer_format_def digits_of_numeral digits_of_0 digits_of_1

lemma match_9_25_0: "regex_match (js_trim ''9.25.0'') = Some ''9.25.0''"
  by (simp add: trim_defs match_defs)
lemma match_v9_25_0_stable: "regex_match (js_trim ''v9.25.0 stable'') = Some ''9.25.0''"
  by (simp add: trim_defs match_defs)
lemma match_9_25: "regex_match (js_trim ''9.25'') = Some ''9.25''"
  by (simp add: trim_defs match_defs)
lemma match_no_version: "regex_match (js_trim ''no version here'') = None"
  by (simp add: trim_defs match_defs)

lemma new_9_25_0: "SemVer_new ''9.25.0'' = Some MinimumAutoVersion"
  by (simp add: semver_defs MinimumAutoVersion_def)
lemma valid_9_25_0: "semver_valid ''9.25.0'' = Some ''9.25.0''"
  by (simp add: semver_valid_def new_9_25_0 MinimumAutoVersion_def)
lemma valid_9_25: "semver_valid ''9.25'' = None"
  by (simp add: semver_defs)

lemma single_line: "\<not> js_includes (js_trim ''9.25.0'') (CHR 0x0A)"
  "\<not> js_includes (js_trim ''v9.25.0 stable'') (CHR 0x0A)"
  "\<not> js_includes (js_trim ''9.25'') (CHR 0x0A)"
  "\<not> js_includes (js_trim ''no version here'') (CHR 0x0A)"
  by (simp_all add: trim_defs js_includes_def)

lemma check_9_25_0: "checkAutoVersion command ''9.25.0'' = Inr ()"
  by (simp add: checkAutoVersion_def single_line match_9_25_0 valid_9_25_0 new_9_25_0
      SemVer_js_less_def SemVer_toString_def MinimumAutoVersion_def)
lemma check_v9_25_0_stable: "checkAutoVersion command ''v9.25.0 stable'' = Inr ()"
  by (simp add: checkAutoVersion_def single_line match_v9_25_0_stable valid_9_25_0 new_9_25_0
      SemVer_js_less_def SemVer_toString_def MinimumAutoVersion_def)
lemma check_9_25: "checkAutoVersion command ''9.25'' = Inl VersionUnparseable"
  by (simp add: checkAutoVersion_def single_line match_9_25 valid_9_25)
lemma check_no_version: "checkAutoVersion command ''no version here'' = Inl VersionUnparseable"
  by (simp add: checkAutoVersion_def single_line match_no_version)

lemmas check_defs = checkAutoVersion_def trim_defs js_includes_def match_defs semver_defs
  SemVer_js_less_def SemVer_toString_def MinimumAutoVersion_def

lemma check_9_24_0:
  "checkAutoVersion command ''9.24.0'' = Inl (VersionTooOld ''9.25.0'' command ''9.24.0'')"
  by (simp add: check_defs)
lemma check_9_26_1: "checkAutoVersion command ''9.26.1'' = Inr ()"
  by (simp add: check_defs)
lemma check_10_0_0:
  "checkAutoVersion command ''10.0.0'' = Inl (VersionTooOld ''9.25.0'' command ''10.0.0'')"
  by (simp add: check_defs)
lemma check_9_3_0: "checkAutoVersion command ''9.3.0'' = Inr ()"
  by (simp add: check_defs)

lemma below_10_0_0:
  "map_option (\<lambda>v. semver_below v MinimumAutoVersion) (SemVer_new ''10.0.0'') = Some False"
  by (simp add: semver_defs semver_below_def MinimumAutoVersion_def)
lemma below_9_3_0:
  "map_option (\<lambda>v. semver_below v MinimumAutoVersion) (SemVer_new ''9.3.0'') = Some True"
  by (simp add: semver_defs semver_below_def MinimumAutoVersion_def)

lemma createCommandManager_host_printing:
  "createCommandManager (host_printing t 0) repo owner githubApi plugins =
     (case checkAutoVersion ''/usr/bin/auto'' t of
        Inl e \<Rightarrow> Inl e
      | Inr _ \<Rightarrow> Inr (initialized repo owner githubApi plugins ''/usr/bin/auto''))"
  by (simp add: createCommandManager_unfold locateAuto_host_printing execAuto_host_printing)

lemma globalArgs_fixture:
  "globalArgs manager_fixture =
     [''--repo'', ''auto-action'', ''--owner'', ''terradatum'', ''--plugins'', ''[npm released]'']"
  by (simp add: manager_fixture_def globalArgs_initialized spec_globalArgs_def)



lemma match_here_chars:
  assumes "match_here s = Some m"
  shows "set m \<subseteq> insert (CHR ''.'') (set digit_chars)"
proof -
  have "set (takeWhile is_digit xs) \<subseteq> set digit_chars" for xs
    by (auto dest: set_takeWhileD simp: is_digit_def)
  then show ?thesis
    using assms
    by (auto simp: match_here_def Let_def split: if_splits list.splits dest!: set_takeWhileD simp: is_digit_def)
qed

lemma regex_match_chars:
  "regex_match s = Some m \<Longrightarrow> set m \<subseteq> insert (CHR ''.'') (set digit_chars)"
  by (induction s) (auto split: option.splits dest: match_here_chars)

lemma pairs_present:
  "followed_by ''--repo'' repo (spec_globalArgs repo owner githubApi plugins) = (repo \<noteq> [])"
  "followed_by ''--owner'' owner (spec_globalArgs repo owner githubApi plugins) = (owner \<noteq> [])"
  "followed_by ''--githubApi'' githubApi (spec_globalArgs repo owner githubApi plugins) =
     (githubApi \<noteq> [])"
  "followed_by ''--plugins'' (''['' @ js_join '' '' plugins @ '']'')
     (spec_globalArgs repo owner githubApi plugins) = (plugins \<noteq> [])"
  by (auto simp: spec_globalArgs_def)

lemma perform_execAuto:
  "(case floating (perform h this r) of
      None \<Rightarrow>
        settled (perform h this r) =
          (case execAuto h this (command_args r) False of
             Inl e \<Rightarrow> Inl e
           | Inr output \<Rightarrow> Inr (reply_of r output))
    | Some p \<Rightarrow> p = execAuto h this (command_args r) False \<and> settled (perform h this r) = Inr Void)"
  by (cases r)
    (simp_all add: op_defs replying_def await_execAuto_def detached_execAuto_def split: sum.splits)

section \<open>The properties\<close>

text \<open>
  In the theorems about initialization, \<open>locateAuto h = Inr command\<close> says that an
  executable was found, and \<open>execAuto \<dots> [''--version''] False = Inr output\<close> that the
  \<open>--version\<close> subprocess ran to exit code zero and printed \<open>stdout output\<close>.
\<close>

subsection \<open>C1: parsing the output of \<open>--version\<close>\<close>

text \<open>
  C1. For the single-line outputs \<open>9.25.0\<close> and \<open>v9.25.0 stable\<close> the first match of
  the pattern is \<open>9.25.0\<close>, it is a valid semantic version, and initialization succeeds.
  For \<open>9.25\<close> the pattern matches \<open>9.25\<close>, which \<open>semver.valid\<close> refuses (a semantic
  version has three components), and initialization fails with VersionUnparseable. For
  \<open>no version here\<close> the pattern does not match and initialization fails with
  VersionUnparseable.
\<close>

theorem version_parsing:
  assumes "locateAuto h = Inr command"
    and "execAuto h (initialized repo owner githubApi plugins command) [''--version''] False = Inr output"
  shows
    "(stdout output = ''9.25.0'' \<or> stdout output = ''v9.25.0 stable'' \<longrightarrow>
        regex_match (js_trim (stdout output)) = Some ''9.25.0'' \<and>
        semver_valid ''9.25.0'' = Some ''9.25.0'' \<and>
        createCommandManager h repo owner githubApi plugins =
          Inr (initialized repo owner githubApi plugins command)) \<and>
     (stdout output = ''9.25'' \<longrightarrow>
        regex_match (js_trim (stdout output)) = Some ''9.25'' \<and>
        semver_valid ''9.25'' = None \<and>
        createCommandManager h repo owner githubApi plugins = Inl VersionUnparseable) \<and>
     (stdout output = ''no version here'' \<longrightarrow>
        regex_match (js_trim (stdout output)) = None \<and>
        createCommandManager h repo owner githubApi plugins = Inl VersionUnparseable)"
  using createCommandManager_checked [OF assms]
  by (auto simp: match_9_25_0 match_v9_25_0_stable match_9_25 match_no_version valid_9_25_0 valid_9_25
      check_9_25_0 check_v9_25_0_stable check_9_25 check_no_version)

text \<open>The theorem on four hosts, one for each output.\<close>

theorem version_parsing_witness:
  "locateAuto (host_printing ''9.25.0'' 0) = Inr ''/usr/bin/auto'' \<and>
   execAuto (host_printing ''9.25.0'' 0) (initialized [] [] [] [] ''/usr/bin/auto'')
     [''--version''] False = Inr \<lparr>stdout = ''9.25.0'', exitCode = 0\<rparr> \<and>
   createCommandManager (host_printing ''9.25.0'' 0) [] [] [] [] =
     Inr (initialized [] [] [] [] ''/usr/bin/auto'') \<and>
   createCommandManager (host_printing ''v9.25.0 stable'' 0) [] [] [] [] =
     Inr (initialized [] [] [] [] ''/usr/bin/auto'') \<and>
   createCommandManager (host_printing ''9.25'' 0) ''r'' [] [] [] = Inl VersionUnparseable \<and>
   createCommandManager (host_printing ''no version here'' 0) [] [] [] [] = Inl VersionUnparseable"
  using
    version_parsing [of "host_printing ''9.25.0'' 0" "''/usr/bin/auto''" "[]" "[]" "[]" "[]"
      "\<lparr>stdout = ''9.25.0'', exitCode = 0\<rparr>"]
    version_parsing [of "host_printing ''v9.25.0 stable'' 0" "''/usr/bin/auto''" "[]" "[]" "[]" "[]"
      "\<lparr>stdout = ''v9.25.0 stable'', exitCode = 0\<rparr>"]
    version_parsing [of "host_printing ''9.25'' 0" "''/usr/bin/auto''" "''r''" "[]" "[]" "[]"
      "\<lparr>stdout = ''9.25'', exitCode = 0\<rparr>"]
    version_parsing [of "host_printing ''no version here'' 0" "''/usr/bin/auto''" "[]" "[]" "[]" "[]"
      "\<lparr>stdout = ''no version here'', exitCode = 0\<rparr>"]
  by (simp add: locateAuto_host_printing execAuto_host_printing)

text \<open>
  The output \<open>9.25\<close> does not yield a valid semantic version: the match is refused and
  initialization fails with VersionUnparseable.
\<close>

theorem version_parsing_counterexample:
  "regex_match (js_trim ''9.25'') = Some ''9.25'' \<and> semver_valid ''9.25'' = None \<and>
   createCommandManager (host_printing ''9.25'' 0) [] [] [] [] = Inl VersionUnparseable"
  by (simp add: createCommandManager_host_printing check_9_25 match_9_25 valid_9_25)

subsection \<open>C2: the minimum version\<close>

text \<open>
  C2. The check \<open>autoVersion < MinimumAutoVersion\<close> compares the two version strings, not
  the versions. On the outputs \<open>9.24.0\<close>, \<open>9.25.0\<close> and \<open>9.26.1\<close> both orders agree:
  the first is refused with VersionTooOld and the other two pass. On \<open>10.0.0\<close>, which is
  not below \<open>9.25.0\<close> in the order of semantic versions, initialization fails with
  VersionTooOld; on \<open>9.3.0\<close>, which is below it, initialization succeeds.
\<close>

theorem minimum_version_compares_strings:
  "createCommandManager (host_printing ''10.0.0'' 0) [] [] [] [] =
     Inl (VersionTooOld ''9.25.0'' ''/usr/bin/auto'' ''10.0.0'') \<and>
   map_option (\<lambda>v. semver_below v MinimumAutoVersion) (SemVer_new ''10.0.0'') = Some False \<and>
   createCommandManager (host_printing ''9.3.0'' 0) [] [] [] [] =
     Inr (initialized [] [] [] [] ''/usr/bin/auto'') \<and>
   map_option (\<lambda>v. semver_below v MinimumAutoVersion) (SemVer_new ''9.3.0'') = Some True \<and>
   createCommandManager (host_printing ''9.24.0'' 0) [] [] [] [] =
     Inl (VersionTooOld ''9.25.0'' ''/usr/bin/auto'' ''9.24.0'') \<and>
   createCommandManager (host_printing ''9.25.0'' 0) [] [] [] [] =
     Inr (initialized [] [] [] [] ''/usr/bin/auto'') \<and>
   createCommandManager (host_printing ''9.26.1'' 0) [] [] [] [] =
     Inr (initialized [] [] [] [] ''/usr/bin/auto'')"
  by (simp add: createCommandManager_host_printing check_10_0_0 check_9_3_0 check_9_24_0
      check_9_25_0 check_9_26_1 below_10_0_0 below_9_3_0)

subsection \<open>C3: the operations that do not await the subprocess\<close>

text \<open>
  C3. \<open>prStatus\<close>, \<open>prBody\<close> and \<open>comment\<close> call \<open>execAuto\<close> without awaiting it. When
  the subprocess exits with code 1 the promise of \<open>execAuto\<close> rejects with the
  subprocess failure, but the promise of the operation has already been fulfilled: its
  caller sees no failure. The sibling \<open>prCheck\<close>, which awaits, fails on the same host.
\<close>

theorem fire_and_forget_drops_failure:
  "settled (prStatus (host_printing [] 1) manager_fixture False 7 ''ci'' [] [] failure []) = Inr () \<and>
   floating (prStatus (host_printing [] 1) manager_fixture False 7 ''ci'' [] [] failure []) =
     Some (Inl (SubprocessFailure 1)) \<and>
   settled (prBody (host_printing [] 1) manager_fixture False 7 ''ci'' ''text'') = Inr () \<and>
   floating (prBody (host_printing [] 1) manager_fixture False 7 ''ci'' ''text'') =
     Some (Inl (SubprocessFailure 1)) \<and>
   settled (comment (host_printing [] 1) manager_fixture False 7 ''ci'' ''done'' False False) = Inr () \<and>
   floating (comment (host_printing [] 1) manager_fixture False 7 ''ci'' ''done'' False False) =
     Some (Inl (SubprocessFailure 1)) \<and>
   settled (prCheck (host_printing [] 1) manager_fixture False 7 ''ci'' []) =
     Inl (SubprocessFailure 1)"
  by (simp add: prStatus_def prBody_def comment_def prCheck_def detached_execAuto_def
      await_execAuto_def execAuto_host_printing)

subsection \<open>C4: the global arguments\<close>

text \<open>
  C4. For all inputs the global argument list built at initialization, and kept by the
  manager that initialization returns, is made of the pairs \<open>--repo repo\<close>,
  \<open>--owner owner\<close>, \<open>--githubApi url\<close> and \<open>--plugins [p1 p2 \<dots>]\<close>, in this order, the
  pair of an empty input being left out; and each flag is immediately followed by its
  value somewhere in the list if and only if its input is not empty.
\<close>

theorem global_arguments:
  "globalArgs (pushGlobalArgs new_AutoCommandManager repo owner githubApi plugins) =
     spec_globalArgs repo owner githubApi plugins \<and>
   (createCommandManager h repo owner githubApi plugins = Inr m \<longrightarrow>
     globalArgs m = spec_globalArgs repo owner githubApi plugins) \<and>
   followed_by ''--repo'' repo (spec_globalArgs repo owner githubApi plugins) = (repo \<noteq> []) \<and>
   followed_by ''--owner'' owner (spec_globalArgs repo owner githubApi plugins) = (owner \<noteq> []) \<and>
   followed_by ''--githubApi'' githubApi (spec_globalArgs repo owner githubApi plugins) =
     (githubApi \<noteq> []) \<and>
   followed_by ''--plugins'' (''['' @ js_join '' '' plugins @ '']'')
     (spec_globalArgs repo owner githubApi plugins) = (plugins \<noteq> [])"
proof -
  have built: "globalArgs (pushGlobalArgs new_AutoCommandManager repo owner githubApi plugins) =
      spec_globalArgs repo owner githubApi plugins"
    by (simp add: globalArgs_pushGlobalArgs new_AutoCommandManager_def)
  have "globalArgs m = spec_globalArgs repo owner githubApi plugins"
    if "createCommandManager h repo owner githubApi plugins = Inr m"
    using createCommandManager_Inr [OF that] by (auto simp: globalArgs_initialized)
  then have kept: "createCommandManager h repo owner githubApi plugins = Inr m \<longrightarrow>
      globalArgs m = spec_globalArgs repo owner githubApi plugins"
    by blast
  show ?thesis
    by (intro conjI built kept pairs_present)
qed

theorem global_arguments_witness:
  "createCommandManager (host_printing ''9.25.0'' 0)
      ''auto-action'' ''terradatum'' [] [''npm'', ''released''] = Inr manager_fixture \<and>
   globalArgs manager_fixture =
     [''--repo'', ''auto-action'', ''--owner'', ''terradatum'', ''--plugins'', ''[npm released]'']"
  using global_arguments [of "''auto-action''" "''terradatum''" "[]" "[''npm'', ''released'']"
      "host_printing ''9.25.0'' 0" manager_fixture]
  by (simp add: createCommandManager_host_printing check_9_25_0 manager_fixture_def spec_globalArgs_def)

subsection \<open>C5: global arguments come first\<close>

text \<open>
  C5. For every operation and every input, the subprocess is started with the manager's
  global arguments followed by the arguments of the operation, and what the operation
  (or, where it does not await, the promise it leaves behind) settles to is decided by
  what the subprocess does at exactly that vector. The same holds of every call of
  \<open>execAuto\<close>, whatever its arguments.
\<close>

theorem global_args_first:
  "execAuto h this args allowAllExitCodes =
     (let call = \<lparr>commandLine = [CHR 0x22] @ autoCommand this @ [CHR 0x22],
                  execArgs = globalArgs this @ args,
                  env = process_env h ++ autoEnv this,
                  ignoreReturnCode = allowAllExitCodes\<rparr>;
          res = run_process h call
      in if code res \<noteq> 0 \<and> \<not> allowAllExitCodes then Inl (SubprocessFailure (code res))
         else Inr \<lparr>stdout = concat (chunks res), exitCode = code res\<rparr>) \<and>
   (let call = \<lparr>commandLine = [CHR 0x22] @ autoCommand this @ [CHR 0x22],
                execArgs = globalArgs this @ command_args r,
                env = process_env h ++ autoEnv this,
                ignoreReturnCode = False\<rparr>;
        res = run_process h call;
        promise = (if code res \<noteq> 0 then Inl (SubprocessFailure (code res))
                   else Inr \<lparr>stdout = concat (chunks res), exitCode = code res\<rparr>)
    in case floating (perform h this r) of
         None \<Rightarrow>
           settled (perform h this r) =
             (case promise of Inl e \<Rightarrow> Inl e | Inr output \<Rightarrow> Inr (reply_of r output))
       | Some p \<Rightarrow> p = promise \<and> settled (perform h this r) = Inr Void) \<and>
   execArgs (execAuto_call h this args allowAllExitCodes) = globalArgs this @ args \<and>
   execArgs (invoked (perform h this r)) = globalArgs this @ command_args r"
proof -
  define res where "res = run_process h
      \<lparr>commandLine = [CHR 0x22] @ autoCommand this @ [CHR 0x22],
       execArgs = globalArgs this @ command_args r,
       env = process_env h ++ autoEnv this,
       ignoreReturnCode = False\<rparr>"
  define promise where "promise =
      (if code res \<noteq> 0 then Inl (SubprocessFailure (code res))
       else Inr \<lparr>stdout = concat (chunks res), exitCode = code res\<rparr>)"
  have settles: "execAuto h this (command_args r) False = promise"
    unfolding promise_def res_def
    by (simp add: execAuto_def exec_exec_def execAuto_call_def Let_def)
  have "case floating (perform h this r) of
         None \<Rightarrow>
           settled (perform h this r) =
             (case promise of Inl e \<Rightarrow> Inl e | Inr output \<Rightarrow> Inr (reply_of r output))
       | Some p \<Rightarrow> p = promise \<and> settled (perform h this r) = Inr Void"
    by (rule perform_execAuto [of h this r, unfolded settles])
  then have through: "let call = \<lparr>commandLine = [CHR 0x22] @ autoCommand this @ [CHR 0x22],
                execArgs = globalArgs this @ command_args r,
                env = process_env h ++ autoEnv this,
                ignoreReturnCode = False\<rparr>;
        res = run_process h call;
        promise = (if code res \<noteq> 0 then Inl (SubprocessFailure (code res))
                   else Inr \<lparr>stdout = concat (chunks res), exitCode = code res\<rparr>)
    in case floating (perform h this r) of
         None \<Rightarrow>
           settled (perform h this r) =
             (case promise of Inl e \<Rightarrow> Inl e | Inr output \<Rightarrow> Inr (reply_of r output))
       | Some p \<Rightarrow> p = promise \<and> settled (perform h this r) = Inr Void"
    unfolding Let_def promise_def res_def .
  have fields: "execArgs (execAuto_call h this args allowAllExitCodes) = globalArgs this @ args"
    "execArgs (invoked (perform h this r)) = globalArgs this @ command_args r"
    by (simp_all add: invoked_perform execAuto_call_def)
  have started: "execAuto h this args allowAllExitCodes =
     (let call = \<lparr>commandLine = [CHR 0x22] @ autoCommand this @ [CHR 0x22],
                  execArgs = globalArgs this @ args,
                  env = process_env h ++ autoEnv this,
                  ignoreReturnCode = allowAllExitCodes\<rparr>;
          res = run_process h call
      in if code res \<noteq> 0 \<and> \<not> allowAllExitCodes then Inl (SubprocessFailure (code res))
         else Inr \<lparr>stdout = concat (chunks res), exitCode = code res\<rparr>)"
    by (cases allowAllExitCodes)
      (simp_all add: execAuto_def exec_exec_def execAuto_call_def Let_def)
  show ?thesis
    by (intro conjI started through fields)
qed

text \<open>
  On a host that accepts only the full vector the operation succeeds; on a host that
  accepts only the operation's own arguments, without the global ones, it fails.
\<close>

theorem global_args_first_witness:
  "settled (perform
      (host_expecting
        [''--repo'', ''auto-action'', ''--owner'', ''terradatum'', ''--plugins'', ''[npm released]'',
         ''next'', ''--dry-run'', ''--message'', ''msg''])
      manager_fixture (Call_next True ''msg'')) = Inr Void \<and>
   settled (perform
      (host_expecting [''next'', ''--dry-run'', ''--message'', ''msg''])
      manager_fixture (Call_next True ''msg'')) = Inl (SubprocessFailure 1) \<and>
   execArgs (invoked (perform (host_printing [] 0) manager_fixture (Call_next True ''msg''))) =
     [''--repo'', ''auto-action'', ''--owner'', ''terradatum'', ''--plugins'', ''[npm released]'',
      ''next'', ''--dry-run'', ''--message'', ''msg'']"
  using
    global_args_first [of
      "host_expecting
        [''--repo'', ''auto-action'', ''--owner'', ''terradatum'', ''--plugins'', ''[npm released]'',
         ''next'', ''--dry-run'', ''--message'', ''msg'']"
      manager_fixture "[]" False "Call_next True ''msg''"]
    global_args_first [of "host_expecting [''next'', ''--dry-run'', ''--message'', ''msg'']"
      manager_fixture "[]" False "Call_next True ''msg''"]
    global_args_first [of "host_printing [] 0" manager_fixture "[]" False "Call_next True ''msg''"]
  by (simp add: globalArgs_fixture next_args_def push_def AutoCommand_next_def host_expecting_def
      next_op_def replying_def await_execAuto_def Let_def)

subsection \<open>C6: flags are gated by their inputs\<close>

text \<open>
  C6. For every operation and every input, the argument list the operation builds is
  its subcommand followed by what each optional flag emits, in order: a switch when its
  boolean is true, a flag and its value when the string is not empty, \<open>--pr\<close> and the
  number when the pull-request number is strictly greater than zero, and nothing
  otherwise. No element of the list is an empty string, so no flag is paired with an
  empty value.
\<close>

theorem flag_gating:
  "command_args r = descriptor_args r \<and> [] \<notin> set (command_args r)"
  by (simp add: command_args_descriptor descriptor_no_empty)

theorem flag_gating_witness:
  "command_args (Call_canary False 0 [] ''try it'' True) = [''canary'', ''--message'', ''try it'', ''--force''] \<and>
   command_args (Call_canary True 15 ''b1'' [] False) =
     [''canary'', ''--dry-run'', ''--pr'', ''15'', ''--build'', ''b1'']"
  using flag_gating [of "Call_canary False 0 [] ''try it'' True"]
    flag_gating [of "Call_canary True 15 ''b1'' [] False"]
  by (simp add: descriptor_args_def Number_toString_def digits_of_numeral digits_of_1 digit_chars_def)

subsection \<open>C7: the release scenario\<close>

text \<open>
  C7. \<open>release\<close> with dryRun = true, noVersionPrefix = false, name = \<open>bot\<close>, email =
  \<open>bot@x.com\<close>, from = \<open>v1.0.0\<close>, useVersion and baseBranch empty, preRelease = false
  builds \<open>release --dry-run --name bot --email bot@x.com --from v1.0.0\<close>; the subprocess
  is started with the global arguments followed by exactly these eight elements, and the
  operation succeeds or fails as the subprocess does at that vector.
\<close>

theorem release_scenario:
  "release_args True False ''bot'' ''bot@x.com'' ''v1.0.0'' [] [] False =
     [''release'', ''--dry-run'', ''--name'', ''bot'', ''--email'', ''bot@x.com'',
      ''--from'', ''v1.0.0''] \<and>
   (let call = \<lparr>commandLine = [CHR 0x22] @ autoCommand this @ [CHR 0x22],
                execArgs = globalArgs this @
                  [''release'', ''--dry-run'', ''--name'', ''bot'', ''--email'', ''bot@x.com'',
                   ''--from'', ''v1.0.0''],
                env = process_env h ++ autoEnv this,
                ignoreReturnCode = False\<rparr>;
        res = run_process h call
    in floating (release h this True False ''bot'' ''bot@x.com'' ''v1.0.0'' [] [] False) = None \<and>
       settled (release h this True False ''bot'' ''bot@x.com'' ''v1.0.0'' [] [] False) =
         (if code res \<noteq> 0 then Inl (SubprocessFailure (code res)) else Inr ())) \<and>
   execArgs (invoked (release h this True False ''bot'' ''bot@x.com'' ''v1.0.0'' [] [] False)) =
     globalArgs this @
     [''release'', ''--dry-run'', ''--name'', ''bot'', ''--email'', ''bot@x.com'',
      ''--from'', ''v1.0.0'']"
proof -
  have args: "release_args True False ''bot'' ''bot@x.com'' ''v1.0.0'' [] [] False =
     [''release'', ''--dry-run'', ''--name'', ''bot'', ''--email'', ''bot@x.com'',
      ''--from'', ''v1.0.0'']"
    by (simp add: release_args_def commonChangelogReleaseArgs_def push_def AutoCommand_release_def)
  show ?thesis
    by (simp add: release_def await_execAuto_def execAuto_call_def execAuto_def exec_exec_def
        args Let_def)
qed

text \<open>
  The subprocess accepts the vector with the global arguments in front, and refuses the
  eight elements alone.
\<close>

theorem release_scenario_witness:
  "settled (release
      (host_expecting
        [''--repo'', ''auto-action'', ''--owner'', ''terradatum'', ''--plugins'', ''[npm released]'',
         ''release'', ''--dry-run'', ''--name'', ''bot'', ''--email'', ''bot@x.com'',
         ''--from'', ''v1.0.0''])
      manager_fixture True False ''bot'' ''bot@x.com'' ''v1.0.0'' [] [] False) = Inr () \<and>
   settled (release
      (host_expecting
        [''release'', ''--dry-run'', ''--name'', ''bot'', ''--email'', ''bot@x.com'',
         ''--from'', ''v1.0.0''])
      manager_fixture True False ''bot'' ''bot@x.com'' ''v1.0.0'' [] [] False) =
     Inl (SubprocessFailure 1) \<and>
   execArgs (invoked (release (host_printing [] 0) manager_fixture
      True False ''bot'' ''bot@x.com'' ''v1.0.0'' [] [] False)) =
     [''--repo'', ''auto-action'', ''--owner'', ''terradatum'', ''--plugins'', ''[npm released]'',
      ''release'', ''--dry-run'', ''--name'', ''bot'', ''--email'', ''bot@x.com'',
      ''--from'', ''v1.0.0'']"
  using
    release_scenario [of manager_fixture
      "host_expecting
        [''--repo'', ''auto-action'', ''--owner'', ''terradatum'', ''--plugins'', ''[npm released]'',
         ''release'', ''--dry-run'', ''--name'', ''bot'', ''--email'', ''bot@x.com'',
         ''--from'', ''v1.0.0'']"]
    release_scenario [of manager_fixture
      "host_expecting
        [''release'', ''--dry-run'', ''--name'', ''bot'', ''--email'', ''bot@x.com'',
         ''--from'', ''v1.0.0'']"]
    release_scenario [of manager_fixture "host_printing [] 0"]
  by (simp add: globalArgs_fixture host_expecting_def Let_def)

subsection \<open>C8: the comment scenario\<close>

text \<open>
  C8. \<open>comment\<close> with dryRun = false, pr = 42, context = \<open>ci\<close>, message = \<open>done\<close>,
  edit = false, del = true builds \<open>comment --pr 42 --context ci --message done --delete\<close>,
  the pull-request number being the decimal string \<open>42\<close> in an element of its own.
\<close>

theorem comment_scenario:
  "comment_args False 42 ''ci'' ''done'' False True =
     [''comment'', ''--pr'', ''42'', ''--context'', ''ci'', ''--message'', ''done'', ''--delete''] \<and>
   execArgs (invoked (comment h this False 42 ''ci'' ''done'' False True)) =
     globalArgs this @
     [''comment'', ''--pr'', ''42'', ''--context'', ''ci'', ''--message'', ''done'', ''--delete'']"
  by (simp add: comment_def detached_execAuto_def execAuto_call_def comment_args_def
      commonPrArgs_def push_def AutoCommand_comment_def Number_toString_def digits_of_numeral
      digit_chars_def)

theorem comment_scenario_witness:
  "execArgs (invoked (comment (host_printing [] 0) manager_fixture False 42 ''ci'' ''done'' False True)) =
     [''--repo'', ''auto-action'', ''--owner'', ''terradatum'', ''--plugins'', ''[npm released]'',
      ''comment'', ''--pr'', ''42'', ''--context'', ''ci'', ''--message'', ''done'', ''--delete'']"
  using comment_scenario [of "host_printing [] 0" manager_fixture]
  by (simp add: globalArgs_fixture)

subsection \<open>C9: output of several lines\<close>

text \<open>
  C9. When the trimmed output of \<open>--version\<close> contains a line break, the version is
  neither extracted nor compared with the minimum: the check returns without an error and
  initialization returns the manager.
\<close>

theorem multi_line_skips_check:
  assumes "locateAuto h = Inr command"
    and "execAuto h (initialized repo owner githubApi plugins command) [''--version''] False = Inr output"
    and "js_includes (js_trim (stdout output)) (CHR 0x0A)"
  shows "checkAutoVersion command (stdout output) = Inr () \<and>
         createCommandManager h repo owner githubApi plugins =
           Inr (initialized repo owner githubApi plugins command)"
proof -
  have "checkAutoVersion command (stdout output) = Inr ()"
    using assms(3) by (simp add: checkAutoVersion_def)
  then show ?thesis
    using createCommandManager_checked [OF assms(1,2)] by simp
qed

theorem multi_line_skips_check_witness:
  "locateAuto (host_printing (''auto: old'' @ [CHR 0x0A] @ ''1.0'') 0) = Inr ''/usr/bin/auto'' \<and>
   execAuto (host_printing (''auto: old'' @ [CHR 0x0A] @ ''1.0'') 0)
     (initialized [] [] [] [] ''/usr/bin/auto'') [''--version''] False =
     Inr \<lparr>stdout = ''auto: old'' @ [CHR 0x0A] @ ''1.0'', exitCode = 0\<rparr> \<and>
   js_includes (js_trim (''auto: old'' @ [CHR 0x0A] @ ''1.0'')) (CHR 0x0A) \<and>
   createCommandManager (host_printing (''auto: old'' @ [CHR 0x0A] @ ''1.0'') 0) [] [] [] [] =
     Inr (initialized [] [] [] [] ''/usr/bin/auto'')"
  using multi_line_skips_check [of "host_printing (''auto: old'' @ [CHR 0x0A] @ ''1.0'') 0"
      "''/usr/bin/auto''" "[]" "[]" "[]" "[]"
      "\<lparr>stdout = ''auto: old'' @ [CHR 0x0A] @ ''1.0'', exitCode = 0\<rparr>"]
  by (simp add: locateAuto_host_printing execAuto_host_printing trim_defs js_includes_def)

subsection \<open>C10: a non-zero exit code is a failure\<close>



end
